theory Spec2Isabelle
  imports Complex_Main "HOL-Library.FSet"
begin

section \<open>JavaScript values used by the trajectory-rating page\<close>

text \<open>
  The class \<open>TrajectoryRating\<close> of \<open>static/js/trajectory_rating.js\<close> computes with
  JavaScript numbers. A number is modelled as \<open>NaN\<close>, one of the two infinities, or an
  exact rational: the finite doubles the page meets are small integers and their
  quotients, and the rounding error of a double and the sign of zero are not modelled.
\<close>

datatype jsnum = NaN | PosInf | NegInf | Fin rat

text \<open>The operator \<open>/\<close>: a zero divisor gives \<open>NaN\<close> or an infinity, never an exception.\<close>

fun js_div :: "jsnum \<Rightarrow> jsnum \<Rightarrow> jsnum" where
  "js_div (Fin a) (Fin b) =
     (if b = 0 then (if a = 0 then NaN else if 0 < a then PosInf else NegInf)
      else Fin (a / b))"
| "js_div (Fin a) PosInf = Fin 0"
| "js_div (Fin a) NegInf = Fin 0"
| "js_div PosInf (Fin b) = (if 0 \<le> b then PosInf else NegInf)"
| "js_div NegInf (Fin b) = (if 0 \<le> b then NegInf else PosInf)"
| "js_div _ _ = NaN"

text \<open>The operator \<open>*\<close>.\<close>

fun js_mul :: "jsnum \<Rightarrow> jsnum \<Rightarrow> jsnum" where
  "js_mul (Fin a) (Fin b) = Fin (a * b)"
| "js_mul NaN _ = NaN"
| "js_mul _ NaN = NaN"
| "js_mul PosInf (Fin b) = (if b = 0 then NaN else if 0 < b then PosInf else NegInf)"
| "js_mul NegInf (Fin b) = (if b = 0 then NaN else if 0 < b then NegInf else PosInf)"
| "js_mul (Fin a) PosInf = (if a = 0 then NaN else if 0 < a then PosInf else NegInf)"
| "js_mul (Fin a) NegInf = (if a = 0 then NaN else if 0 < a then NegInf else PosInf)"
| "js_mul PosInf PosInf = PosInf"
| "js_mul PosInf NegInf = NegInf"
| "js_mul NegInf PosInf = NegInf"
| "js_mul NegInf NegInf = PosInf"

text \<open>The operator \<open>+\<close> on numbers (\<open>a - 1\<close> is \<open>a + (-1)\<close>).\<close>

fun js_add :: "jsnum \<Rightarrow> jsnum \<Rightarrow> jsnum" where
  "js_add (Fin a) (Fin b) = Fin (a + b)"
| "js_add NaN _ = NaN"
| "js_add _ NaN = NaN"
| "js_add PosInf NegInf = NaN"
| "js_add NegInf PosInf = NaN"
| "js_add PosInf _ = PosInf"
| "js_add NegInf _ = NegInf"
| "js_add (Fin a) PosInf = PosInf"
| "js_add (Fin a) NegInf = NegInf"

text \<open>The comparisons \<open><=\<close>, \<open><\<close> and \<open>>=\<close>: every comparison with \<open>NaN\<close> is false.\<close>

fun js_le :: "jsnum \<Rightarrow> jsnum \<Rightarrow> bool" where
  "js_le NaN _ = False"
| "js_le _ NaN = False"
| "js_le NegInf _ = True"
| "js_le _ PosInf = True"
| "js_le PosInf _ = False"
| "js_le _ NegInf = False"
| "js_le (Fin a) (Fin b) = (a \<le> b)"

definition js_lt :: "jsnum \<Rightarrow> jsnum \<Rightarrow> bool" where
  "js_lt a b = (js_le a b \<and> a \<noteq> b)"

definition js_ge :: "jsnum \<Rightarrow> jsnum \<Rightarrow> bool" where
  "js_ge a b = js_le b a"

text \<open>\<open>Math.round\<close>: the nearest integer, a half rounded up.\<close>

fun js_round :: "jsnum \<Rightarrow> jsnum" where
  "js_round (Fin a) = Fin (of_int \<lfloor>a + 1 / 2\<rfloor>)"
| "js_round x = x"

text \<open>Truthiness of a number (\<open>!x\<close> is its negation): \<open>0\<close> and \<open>NaN\<close> are falsy.\<close>

definition truthy_num :: "jsnum \<Rightarrow> bool" where
  "truthy_num x = (x \<noteq> NaN \<and> x \<noteq> Fin 0)"

text \<open>
  \<open>currentTrajectoryId\<close> starts as \<open>null\<close> and is later whatever
  \<open>setCurrentTrajectory\<close> receives; \<open>submitRating\<close> tests it against \<open>null\<close> and
  \<open>undefined\<close> separately.
\<close>

datatype jsval = Null | Undefined | Num jsnum

text \<open>\<open>ToNumber\<close>, applied by \<open>+\<close>, \<open><=\<close> and \<open>>=\<close>.\<close>

fun to_number :: "jsval \<Rightarrow> jsnum" where
  "to_number Null = Fin 0"
| "to_number Undefined = NaN"
| "to_number (Num x) = x"

fun truthy_val :: "jsval \<Rightarrow> bool" where
  "truthy_val Null = False"
| "truthy_val Undefined = False"
| "truthy_val (Num x) = truthy_num x"

text \<open>Truthiness of \<open>videoFilename\<close>: \<open>null\<close> and the empty string are falsy.\<close>

fun truthy_str :: "string option \<Rightarrow> bool" where
  "truthy_str None = False"
| "truthy_str (Some f) = (f \<noteq> [])"

subsection \<open>\<open>parseInt\<close> with no radix argument\<close>

text \<open>
  Leading white space is skipped, one sign is read, a prefix \<open>0x\<close> or \<open>0X\<close> selects
  radix 16 (radix 10 otherwise), and the longest prefix of digits of that radix is the
  value; with no digit the result is \<open>NaN\<close>. Strings are byte strings, so only the ASCII
  white space characters are recognised.
\<close>

definition is_white_space :: "char \<Rightarrow> bool" where
  "is_white_space c = (c \<in> set [CHR 0x09, CHR 0x0A, CHR 0x0B, CHR 0x0C, CHR 0x0D, CHR 0x20])"

definition digit_value :: "char \<Rightarrow> nat option" where
  "digit_value c =
     (let n = (of_char c :: nat) in
      if 48 \<le> n \<and> n \<le> 57 then Some (n - 48)
      else if 97 \<le> n \<and> n \<le> 122 then Some (n - 87)
      else if 65 \<le> n \<and> n \<le> 90 then Some (n - 55)
      else None)"

definition is_digit_of :: "nat \<Rightarrow> char \<Rightarrow> bool" where
  "is_digit_of radix c = (case digit_value c of None \<Rightarrow> False | Some d \<Rightarrow> d < radix)"

definition digits_value :: "nat \<Rightarrow> string \<Rightarrow> nat" where
  "digits_value radix ds =
     foldl (\<lambda>a c. a * radix + (case digit_value c of None \<Rightarrow> 0 | Some d \<Rightarrow> d)) 0 ds"

definition parseInt :: "string \<Rightarrow> jsnum" where
  "parseInt str =
     (let s = dropWhile is_white_space str;
          neg = (take 1 s = ''-'');
          s1 = (if take 1 s = ''+'' \<or> take 1 s = ''-'' then drop 1 s else s);
          hex = (take 2 s1 = ''0x'' \<or> take 2 s1 = ''0X'');
          radix = (if hex then 16 else 10);
          s2 = (if hex then drop 2 s1 else s1);
          ds = takeWhile (is_digit_of radix) s2
      in if ds = [] then NaN
         else Fin (of_int ((if neg then - 1 else 1) * int (digits_value radix ds))))"

section \<open>The session object, the page and the observable effects\<close>

text \<open>
  The fields of a \<open>TrajectoryRating\<close> object. \<open>ratedTrajectories\<close> is a JavaScript
  \<open>Set\<close>: only \<open>add\<close> and \<open>size\<close> are ever used on it, so its insertion order is
  not modelled. The object has no other field: no method stores a rating value anywhere
  but in \<open>currentRating\<close>.
\<close>

record TrajectoryRating =
  currentRating :: jsnum
  currentTrajectoryId :: jsval
  videoFilename :: "string option"
  totalTrajectories :: jsnum
  ratedTrajectories :: "jsval fset"
  smoothnessFactor :: jsnum

text \<open>
  What the methods read from the document: which of the elements they look up by id
  exist, and the text of the comment field (\<open>None\<close> when there is no such field).
\<close>

record page =
  el_submit_rating :: bool
  el_comment :: "string option"
  el_prev_trajectory :: bool
  el_next_trajectory :: bool
  el_progress_fill :: bool
  el_progress_percent :: bool
  el_completion_modal :: bool
  el_final_stats :: bool
  el_trajectory_gif :: bool

text \<open>
  The texts shown to the user are Russian sentences in the source; each is named here
  by what it says.
\<close>

datatype message =
    Choose_rating
  | Rating_saved
  | Rating_save_error
  | Creating_gif
  | Gif_updated
  | Gif_error
  | Trajectory_skipped
  | First_trajectory
  | Last_trajectory
  | All_rated

datatype ntype = Success | Error | Info

datatype quality = Excellent | Good | Satisfactory | Needs_improvement | Low_quality

text \<open>
  Everything a method does besides assigning fields of \<open>this\<close> is an effect, recorded
  in program order: dialogs and notices, requests handed to \<open>fetch\<close>, timers, the
  assignment to \<open>window.location.href\<close> and the writes to elements of the page. The
  arguments of \<open>Fetch_rate_trajectory\<close> are the request body's \<open>video_filename\<close>,
  \<open>trajectory_id\<close>, \<open>rating\<close>, \<open>comment\<close> and \<open>smoothness_factor\<close>; those of
  \<open>Fetch_regenerate_gif\<close> are \<open>video_filename\<close>, \<open>trajectory_id\<close> and
  \<open>smoothness_factor\<close>. \<open>Location_trajectory_rating f n\<close> is the navigation to
  \<open>/trajectory-rating/f/n\<close> (with \<open>f\<close> URI-encoded); \<open>Timeout_navigate d ms\<close> is
  \<open>setTimeout(() => this.navigateTrajectory(d), ms)\<close>. \<open>Final_stats_html\<close> carries
  what the final list shows: the video name, the total, the number rated, the average and
  the quality label. Console output, the classes of the star icons and the rating caption
  are not recorded.
\<close>

datatype effect =
    Alert message
  | Notification message ntype
  | Fetch_rate_trajectory "string option" jsval jsnum string jsnum
  | Fetch_regenerate_gif "string option" jsval jsnum
  | Fetch_video_statistics string
  | Timeout_navigate int nat
  | Location_trajectory_rating string jsnum
  | Submit_disabled bool
  | Comment_value string
  | Prev_disabled bool
  | Next_disabled bool
  | Progress_fill_width jsnum
  | Progress_percent_text jsnum
  | Modal_display_block
  | Modal_animation_fadeIn
  | Final_stats_html "string option" jsnum nat jsnum quality
  | Gif_src string nat

text \<open>An exception that leaves a method; \<open>None\<close> in its place is a normal return.\<close>

datatype exn = TypeError

text \<open>
  An \<open>async\<close> method runs up to its \<open>await fetch(...)\<close> and is resumed with the
  outcome of the request: the promise rejects (\<open>Network_failure\<close>), or a response
  arrives with its \<open>ok\<close> flag and a body that \<open>response.json()\<close> either rejects
  (\<open>Bad_json\<close>) or parses into an object whose \<open>gif_path\<close> may be missing.
\<close>

datatype body = Bad_json | Json "string option"

datatype response = Network_failure | Http bool body

datatype control = Returned | Awaiting

fun accepted :: "response \<Rightarrow> bool" where
  "accepted (Http True (Json g)) = True"
| "accepted _ = False"

section \<open>The methods of \<open>TrajectoryRating\<close>\<close>

text \<open>The field values assigned by the constructor.\<close>

definition new_TrajectoryRating :: TrajectoryRating where
  "new_TrajectoryRating =
     \<lparr>currentRating = Fin 0, currentTrajectoryId = Null, videoFilename = None,
      totalTrajectories = Fin 0, ratedTrajectories = {||}, smoothnessFactor = Fin (1 / 10)\<rparr>"

text \<open>\<open>selectRating(rating)\<close>, called with the \<open>data-rating\<close> attribute of the clicked star.\<close>

definition selectRating :: "page \<Rightarrow> string \<Rightarrow> TrajectoryRating \<Rightarrow> TrajectoryRating \<times> effect list" where
  "selectRating p rating s =
     (s\<lparr>currentRating := parseInt rating\<rparr>,
      if el_submit_rating p then [Submit_disabled False] else [])"

definition setVideoInfo :: "string \<Rightarrow> jsnum \<Rightarrow> TrajectoryRating \<Rightarrow> TrajectoryRating" where
  "setVideoInfo filename totalTrajectories\<^sub>0 s =
     s\<lparr>videoFilename := Some filename, totalTrajectories := totalTrajectories\<^sub>0\<rparr>"

definition setCurrentTrajectory :: "page \<Rightarrow> jsval \<Rightarrow> TrajectoryRating \<Rightarrow> TrajectoryRating \<times> effect list" where
  "setCurrentTrajectory p trajectoryId s =
     (s\<lparr>currentTrajectoryId := trajectoryId, currentRating := Fin 0\<rparr>,
      (if el_comment p \<noteq> None then [Comment_value []] else []) @
      (if el_submit_rating p then [Submit_disabled True] else []) @
      (if el_prev_trajectory p
       then [Prev_disabled (js_le (to_number trajectoryId) (Fin 0))] else []) @
      (if el_next_trajectory p
       then [Next_disabled
               (js_ge (to_number trajectoryId) (js_add (totalTrajectories s) (Fin (- 1))))]
       else []))"

text \<open>
  \<open>navigateTrajectory(direction)\<close> assigns no field; a successful move is the assignment
  to \<open>window.location.href\<close>, which loads the page of the new trajectory.
\<close>

definition navigateTrajectory :: "int \<Rightarrow> TrajectoryRating \<Rightarrow> effect list" where
  "navigateTrajectory direction s =
     (if \<not> truthy_str (videoFilename s) then []
      else let newTrajectoryId = js_add (to_number (currentTrajectoryId s)) (Fin (of_int direction))
           in if js_lt newTrajectoryId (Fin 0) then [Notification First_trajectory Info]
              else if js_ge newTrajectoryId (totalTrajectories s)
                   then [Notification Last_trajectory Info]
              else [Location_trajectory_rating (the (videoFilename s)) newTrajectoryId])"

definition skipTrajectory :: "effect list" where
  "skipTrajectory = [Notification Trajectory_skipped Info, Timeout_navigate 1 1000]"

text \<open>\<open>loadStatistics()\<close> up to its request; the reply only fills display fields.\<close>

definition loadStatistics :: "TrajectoryRating \<Rightarrow> effect list" where
  "loadStatistics s =
     (if \<not> truthy_str (videoFilename s) then []
      else [Fetch_video_statistics (the (videoFilename s))])"

fun getQualityLevel :: "jsnum \<Rightarrow> quality" where
  "getQualityLevel averageRating =
     (if js_ge averageRating (Fin (9 / 2)) then Excellent
      else if js_ge averageRating (Fin 4) then Good
      else if js_ge averageRating (Fin 3) then Satisfactory
      else if js_ge averageRating (Fin 2) then Needs_improvement
      else Low_quality)"

text \<open>
  \<open>populateFinalStats\<close> and \<open>exportResults\<close> call \<open>this.calculateAverageRating()\<close>,
  but the class declares no method of that name and nothing assigns one: the property is
  \<open>undefined\<close>, and calling it raises a \<open>TypeError\<close>.
\<close>

definition calculateAverageRating :: "TrajectoryRating \<Rightarrow> exn + jsnum" where
  "calculateAverageRating s = Inl TypeError"

definition populateFinalStats :: "page \<Rightarrow> TrajectoryRating \<Rightarrow> effect list \<times> exn option" where
  "populateFinalStats p s =
     (if el_final_stats p
      then (case calculateAverageRating s of
              Inl e \<Rightarrow> ([], Some e)
            | Inr avgRating \<Rightarrow>
                ([Final_stats_html (videoFilename s) (totalTrajectories s)
                    (fcard (ratedTrajectories s)) avgRating (getQualityLevel avgRating)], None))
      else ([], None))"

definition showCompletionModal :: "page \<Rightarrow> TrajectoryRating \<Rightarrow> effect list \<times> exn option" where
  "showCompletionModal p s =
     (if el_completion_modal p
      then (case populateFinalStats p s of
              (es, Some e) \<Rightarrow> (Modal_display_block # es, Some e)
            | (es, None) \<Rightarrow>
                (Modal_display_block # es @
                 [Notification All_rated Success, Modal_animation_fadeIn], None))
      else ([], None))"

definition progress_of :: "TrajectoryRating \<Rightarrow> jsnum" where
  "progress_of s =
     js_mul (js_div (Fin (of_nat (fcard (ratedTrajectories s)))) (totalTrajectories s)) (Fin 100)"

definition updateProgress :: "page \<Rightarrow> TrajectoryRating \<Rightarrow> effect list \<times> exn option" where
  "updateProgress p s =
     (if el_progress_fill p \<and> el_progress_percent p
      then let progress = progress_of s;
               shown = [Progress_fill_width progress, Progress_percent_text (js_round progress)]
           in if js_ge progress (Fin 100)
              then (case showCompletionModal p s of (es, x) \<Rightarrow> (shown @ es, x))
              else (shown, None)
      else ([], None))"

text \<open>
  \<open>submitRating()\<close> up to its \<open>await fetch(...)\<close>: the guard, then the request whose
  body is built from the fields as they are at that moment.
\<close>

definition submitRating_request :: "page \<Rightarrow> TrajectoryRating \<Rightarrow> effect list \<times> control" where
  "submitRating_request p s =
     (if \<not> truthy_num (currentRating s) \<or> currentTrajectoryId s = Null
         \<or> currentTrajectoryId s = Undefined
      then ([Alert Choose_rating], Returned)
      else let comment = (case el_comment p of None \<Rightarrow> [] | Some v \<Rightarrow> v)
           in ([Fetch_rate_trajectory (videoFilename s) (currentTrajectoryId s) (currentRating s)
                  comment (smoothnessFactor s)], Awaiting))"

text \<open>
  The rest of \<open>submitRating()\<close>, run when the request has settled, on the object as it
  is then. Everything from the \<open>fetch\<close> on is inside one \<open>try\<close>, so a rejected promise,
  a response that is not \<open>ok\<close>, a body that is not JSON and an exception out of
  \<open>updateProgress\<close> all end in the same \<open>catch\<close>. The method also awaits
  \<open>response.json()\<close>; no field is read or written between the two awaits, so they are
  one step here.
\<close>

fun submitRating_response :: "response \<Rightarrow> page \<Rightarrow> TrajectoryRating \<Rightarrow> TrajectoryRating \<times> effect list" where
  "submitRating_response (Http True (Json result)) p s =
     (let s' = s\<lparr>ratedTrajectories := finsert (currentTrajectoryId s) (ratedTrajectories s)\<rparr>
      in case updateProgress p s' of
           (es, None) \<Rightarrow>
             (s', Notification Rating_saved Success # loadStatistics s' @ es @
                  [Timeout_navigate 1 1000])
         | (es, Some e) \<Rightarrow>
             (s', Notification Rating_saved Success # loadStatistics s' @ es @
                  [Notification Rating_save_error Error]))"
| "submitRating_response r p s = (s, [Notification Rating_save_error Error])"

text \<open>A whole \<open>submitRating()\<close> during which no other handler runs.\<close>

definition submitRating :: "page \<Rightarrow> response \<Rightarrow> TrajectoryRating \<Rightarrow> TrajectoryRating \<times> effect list" where
  "submitRating p r s =
     (case submitRating_request p s of
        (es, Returned) \<Rightarrow> (s, es)
      | (es, Awaiting) \<Rightarrow> (case submitRating_response r p s of (s', es') \<Rightarrow> (s', es @ es')))"

text \<open>
  \<open>regenerateGif()\<close>, in the same two parts; it assigns no field. The second argument of
  the continuation is the value of \<open>Date.now()\<close> appended to the image address.
\<close>

definition regenerateGif_request :: "TrajectoryRating \<Rightarrow> effect list \<times> control" where
  "regenerateGif_request s =
     (if \<not> truthy_val (currentTrajectoryId s) then ([], Returned)
      else ([Notification Creating_gif Info,
             Fetch_regenerate_gif (videoFilename s) (currentTrajectoryId s) (smoothnessFactor s)],
            Awaiting))"

fun regenerateGif_response :: "response \<Rightarrow> nat \<Rightarrow> page \<Rightarrow> effect list" where
  "regenerateGif_response (Http True (Json gif_path)) now p =
     (if el_trajectory_gif p \<and> truthy_str gif_path then [Gif_src (the gif_path) now] else []) @
     [Notification Gif_updated Success]"
| "regenerateGif_response r now p = [Notification Gif_error Error]"

definition regenerateGif :: "page \<Rightarrow> response \<Rightarrow> nat \<Rightarrow> TrajectoryRating \<Rightarrow> TrajectoryRating \<times> effect list" where
  "regenerateGif p r now s =
     (case regenerateGif_request s of
        (es, Returned) \<Rightarrow> (s, es)
      | (es, Awaiting) \<Rightarrow> (s, es @ regenerateGif_response r now p))"

text \<open>
  \<open>init()\<close>, called by the constructor, and the \<open>DOMContentLoaded\<close> handler, which
  constructs the object and then reads the three hidden fields of the page (\<open>None\<close> for
  a field that is missing). An exception out of the constructor would end the handler.
\<close>

definition init :: "page \<Rightarrow> TrajectoryRating \<Rightarrow> effect list \<times> exn option" where
  "init p s = (case updateProgress p s of (es, x) \<Rightarrow> (loadStatistics s @ es, x))"

definition page_loaded :: "page \<Rightarrow> string option \<Rightarrow> string option \<Rightarrow> string option \<Rightarrow> TrajectoryRating \<times> effect list" where
  "page_loaded p videoFilename\<^sub>0 trajectoryId totalTrajectories\<^sub>0 =
     (let s = new_TrajectoryRating
      in case init p s of
           (es, Some e) \<Rightarrow> (s, es)
         | (es, None) \<Rightarrow>
             if truthy_str videoFilename\<^sub>0 \<and> truthy_str trajectoryId
                \<and> truthy_str totalTrajectories\<^sub>0
             then (case setCurrentTrajectory p (Num (parseInt (the trajectoryId)))
                         (setVideoInfo (the videoFilename\<^sub>0)
                            (parseInt (the totalTrajectories\<^sub>0)) s) of
                     (s', es') \<Rightarrow> (s', es @ es'))
             else (s, es))"

text \<open>
  The event loop delivers one handler at a time; \<open>run\<close> applies a list of handlers in
  order and collects their effects.
\<close>

fun run :: "(TrajectoryRating \<Rightarrow> TrajectoryRating \<times> effect list) list \<Rightarrow> TrajectoryRating \<Rightarrow> TrajectoryRating \<times> effect list" where
  "run [] s = (s, [])"
| "run (h # hs) s = (case h s of (s', es) \<Rightarrow> (case run hs s' of (s'', es') \<Rightarrow> (s'', es @ es')))"

text \<open>A recomputation of the progress as a handler of its own.\<close>

definition recompute :: "page \<Rightarrow> TrajectoryRating \<Rightarrow> TrajectoryRating \<times> effect list" where
  "recompute p s = (s, fst (updateProgress p s))"

text \<open>Pages and sessions used in the examples below.\<close>

definition full_page :: page where
  "full_page =
     \<lparr>el_submit_rating = True, el_comment = Some [], el_prev_trajectory = True,
      el_next_trajectory = True, el_progress_fill = True, el_progress_percent = True,
      el_completion_modal = True, el_final_stats = True, el_trajectory_gif = True\<rparr>"

definition session :: "string \<Rightarrow> int \<Rightarrow> int \<Rightarrow> TrajectoryRating" where
  "session f n i =
     new_TrajectoryRating\<lparr>videoFilename := Some f, totalTrajectories := Fin (of_int n),
       currentTrajectoryId := Num (Fin (of_int i))\<rparr>"

text \<open>
  The part of \<open>submitRating()\<close> before the \<open>await\<close> as a handler of its own, so that
  another handler can run before the continuation does.
\<close>

definition submitRating_begin :: "page \<Rightarrow> TrajectoryRating \<Rightarrow> TrajectoryRating \<times> effect list" where
  "submitRating_begin p s = (s, fst (submitRating_request p s))"

text \<open>
  The session of three trajectories in which indices 0 and 1 were rated 5 and 3 and the
  user has chosen 4 for index 2.
\<close>

definition rated_0_1 :: TrajectoryRating where
  "rated_0_1 =
     \<lparr>currentRating = Fin 4, currentTrajectoryId = Num (Fin 2), videoFilename = Some ''v.mp4'',
      totalTrajectories = Fin 3, ratedTrajectories = {|Num (Fin 0), Num (Fin 1)|},
      smoothnessFactor = Fin (1 / 10)\<rparr>"

section \<open>Supporting lemmas\<close>

lemma js_lt_zero_int: "js_lt (Fin (of_int k)) (Fin 0) = (k < 0)"
  by (auto simp add: js_lt_def)

lemma js_ge_int: "js_ge (Fin (of_int k)) (Fin (of_int n)) = (n \<le> k)"
  by (simp add: js_ge_def)

lemma js_round_int: "js_round (Fin (of_int k)) = Fin (of_int k)"
proof -
  have "\<lfloor>(of_int k :: rat) + 1 / 2\<rfloor> = k"
    by (rule floor_unique) simp_all
  then show ?thesis by simp
qed

lemma js_round_100: "js_round (Fin 100) = Fin 100"
  using js_round_int [of 100] by simp

text \<open>
  \<open>parseInt\<close> of a short string is \<open>NaN\<close> or an integer below \<open>2 ^ 53\<close> in
  magnitude, the range in which a double holds every integer exactly.
\<close>

lemma foldl_digits_bound:
  assumes "\<forall>c \<in> set ds. is_digit_of radix c"
  shows "foldl (\<lambda>a c. a * radix + (case digit_value c of None \<Rightarrow> 0 | Some d \<Rightarrow> d)) a ds
           < (a + 1) * radix ^ length ds"
  using assms
proof (induction ds arbitrary: a)
  case Nil
  then show ?case by simp
next
  case (Cons c ds)
  let ?d = "case digit_value c of None \<Rightarrow> 0 | Some d \<Rightarrow> d"
  have "is_digit_of radix c" using Cons.prems by simp
  then have d: "?d < radix"
    by (simp add: is_digit_of_def split: option.splits)
  have "foldl (\<lambda>a c. a * radix + (case digit_value c of None \<Rightarrow> 0 | Some d \<Rightarrow> d))
          (a * radix + ?d) ds < (a * radix + ?d + 1) * radix ^ length ds"
    using Cons.IH [of "a * radix + ?d"] Cons.prems by simp
  also have "\<dots> \<le> ((a + 1) * radix) * radix ^ length ds"
  proof (rule mult_le_mono1)
    show "a * radix + ?d + 1 \<le> (a + 1) * radix" using d by simp
  qed
  finally show ?case by (simp add: algebra_simps)
qed

lemma digits_value_bound:
  assumes "0 < radix"
  shows "digits_value radix (takeWhile (is_digit_of radix) str) < radix ^ length str"
proof -
  have "digits_value radix (takeWhile (is_digit_of radix) str)
          < radix ^ length (takeWhile (is_digit_of radix) str)"
    using foldl_digits_bound [of "takeWhile (is_digit_of radix) str" radix 0]
    by (auto simp add: digits_value_def dest: set_takeWhileD)
  also have "\<dots> \<le> radix ^ length str"
    using assms by (intro power_increasing length_takeWhile_le) simp
  finally show ?thesis .
qed

lemma take_two_length:
  assumes "take 2 xs = [a, b]"
  shows "2 \<le> length xs"
proof -
  from assms have "length (take 2 xs) = length [a, b]" by (rule arg_cong)
  then show ?thesis by simp
qed

lemma parseInt_shape:
  assumes "length rating \<le> 15"
  shows "parseInt rating = NaN \<or> (\<exists>k. \<bar>k\<bar> < 2 ^ 53 \<and> parseInt rating = Fin (of_int k))"
proof -
  define s where "s = dropWhile is_white_space rating"
  define s1 where "s1 = (if take 1 s = ''+'' \<or> take 1 s = ''-'' then drop 1 s else s)"
  define hex where "hex = (take 2 s1 = ''0x'' \<or> take 2 s1 = ''0X'')"
  define radix :: nat where "radix = (if hex then 16 else 10)"
  define s2 where "s2 = (if hex then drop 2 s1 else s1)"
  define v where "v = digits_value radix (takeWhile (is_digit_of radix) s2)"
  have len_s1: "length s1 \<le> 15"
    using assms length_dropWhile_le [of is_white_space rating] by (auto simp add: s1_def s_def)
  have "v < 2 ^ 53"
  proof (cases hex)
    case True
    then have "2 \<le> length s1" by (auto simp add: hex_def dest: take_two_length)
    then have "length s2 \<le> 13" using len_s1 True by (simp add: s2_def)
    then have "(16::nat) ^ length s2 \<le> 16 ^ 13" by (intro power_increasing) simp_all
    moreover have "v < 16 ^ length s2"
      using digits_value_bound [of 16 s2] True by (simp add: v_def radix_def)
    ultimately show ?thesis by simp
  next
    case False
    then have "length s2 \<le> 15" using len_s1 by (simp add: s2_def)
    then have "(10::nat) ^ length s2 \<le> 10 ^ 15" by (intro power_increasing) simp_all
    moreover have "v < 10 ^ length s2"
      using digits_value_bound [of 10 s2] False by (simp add: v_def radix_def)
    ultimately show ?thesis by simp
  qed
  then have bound: "\<bar>(if take 1 s = ''-'' then - 1 else 1) * int v\<bar> < 2 ^ 53"
    by simp
  have "parseInt rating =
          (if takeWhile (is_digit_of radix) s2 = [] then NaN
           else Fin (of_int ((if take 1 s = ''-'' then - 1 else 1) * int v)))"
    unfolding parseInt_def Let_def v_def s2_def radix_def hex_def s1_def s_def by (rule refl)
  with bound show ?thesis by (cases "takeWhile (is_digit_of radix) s2 = []") auto
qed

text \<open>Since \<open>calculateAverageRating\<close> always raises, the final statistics are never written.\<close>

lemma populateFinalStats_eq:
  "populateFinalStats p s = (if el_final_stats p then ([], Some TypeError) else ([], None))"
  by (simp add: populateFinalStats_def calculateAverageRating_def)

lemma showCompletionModal_eq:
  "showCompletionModal p s =
     (if el_completion_modal p
      then (if el_final_stats p then ([Modal_display_block], Some TypeError)
            else ([Modal_display_block, Notification All_rated Success, Modal_animation_fadeIn],
                  None))
      else ([], None))"
  by (simp add: showCompletionModal_def populateFinalStats_eq)

text \<open>The quality label of a finite average follows the thresholds 4.5, 4, 3 and 2.\<close>

lemma getQualityLevel_Fin:
  "getQualityLevel (Fin x) =
     (if 9 / 2 \<le> x then Excellent else if 4 \<le> x then Good
      else if 3 \<le> x then Satisfactory else if 2 \<le> x then Needs_improvement
      else Low_quality)"
  by (simp add: js_ge_def)

text \<open>With a positive total the percentage shown is the rounded quotient.\<close>

lemma progress_of_positive_total:
  assumes "totalTrajectories s = Fin (of_nat n)" and "0 < n"
  shows "progress_of s = Fin (of_nat (fcard (ratedTrajectories s)) / of_nat n * 100)"
    and "js_round (progress_of s) =
           Fin (of_int \<lfloor>(of_nat (fcard (ratedTrajectories s)) :: rat) / of_nat n * 100 + 1 / 2\<rfloor>)"
  using assms by (simp_all add: progress_of_def)

lemma progress_of_complete:
  assumes "totalTrajectories s = Fin (of_nat n)" and "0 < n"
    and "fcard (ratedTrajectories s) = n"
  shows "progress_of s = Fin 100"
  using assms by (simp add: progress_of_def)

lemma updateProgress_complete:
  assumes "el_progress_fill p" and "el_progress_percent p"
    and "totalTrajectories s = Fin (of_nat n)" and "0 < n"
    and "fcard (ratedTrajectories s) = n"
  shows "updateProgress p s =
           (case showCompletionModal p s of
              (es, x) \<Rightarrow> (Progress_fill_width (Fin 100) # Progress_percent_text (Fin 100) # es, x))"
  using assms(1,2) progress_of_complete [OF assms(3,4,5)]
  by (simp add: updateProgress_def js_ge_def js_round_100 Let_def del: js_round.simps
      split: prod.splits)

lemma run_fst: "fst (run (h # hs) s) = fst (run hs (fst (h s)))"
  by (simp split: prod.splits)

lemma run_fst_Nil: "fst (run [] s) = s"
  by simp

lemma run_recompute:
  "run (replicate k (recompute p)) s = (s, concat (replicate k (fst (updateProgress p s))))"
  by (induction k) (simp_all add: recompute_def)

lemma navigateTrajectory_int:
  assumes "truthy_str (videoFilename s)"
    and "currentTrajectoryId s = Num (Fin (of_int i))"
    and "totalTrajectories s = Fin (of_int n)"
  shows "navigateTrajectory d s =
           (if i + d < 0 then [Notification First_trajectory Info]
            else if n \<le> i + d then [Notification Last_trajectory Info]
            else [Location_trajectory_rating (the (videoFilename s)) (Fin (of_int (i + d)))])"
proof -
  have "js_add (to_number (currentTrajectoryId s)) (Fin (of_int d)) = Fin (of_int (i + d))"
    using assms(2) by simp
  then show ?thesis
    using assms(1,3)
    by (simp add: navigateTrajectory_def js_lt_zero_int js_ge_int del: of_int_add)
qed

lemma submitRating_awaiting:
  "submitRating_request p s = (es, Awaiting) \<Longrightarrow>
   submitRating p r s =
     (fst (submitRating_response r p s), es @ snd (submitRating_response r p s))"
  by (simp add: submitRating_def split: prod.splits)

lemma submitRating_response_failed:
  "\<not> accepted r \<Longrightarrow> submitRating_response r p s = (s, [Notification Rating_save_error Error])"
  by (cases "(r, p, s)" rule: submitRating_response.cases) auto

lemma submitRating_response_rated:
  "ratedTrajectories (fst (submitRating_response (Http True (Json g)) p s)) =
     finsert (currentTrajectoryId s) (ratedTrajectories s)"
  by (simp add: Let_def split: prod.splits option.splits)

lemma submitRating_response_other:
  "currentRating (fst (submitRating_response r p s)) = currentRating s
   \<and> currentTrajectoryId (fst (submitRating_response r p s)) = currentTrajectoryId s
   \<and> videoFilename (fst (submitRating_response r p s)) = videoFilename s
   \<and> totalTrajectories (fst (submitRating_response r p s)) = totalTrajectories s
   \<and> smoothnessFactor (fst (submitRating_response r p s)) = smoothnessFactor s"
  by (cases "(r, p, s)" rule: submitRating_response.cases)
     (auto simp add: Let_def split: prod.splits option.splits)

text \<open>\<open>regenerateGif\<close> leaves every field as it was, whatever the reply.\<close>

lemma regenerateGif_state: "fst (regenerateGif p r now s) = s"
  by (simp add: regenerateGif_def split: prod.splits control.splits)

section \<open>Navigation\<close>

text \<open>
  C10: when \<open>videoFilename\<close> is unset (\<open>null\<close> or empty), \<open>navigateTrajectory\<close> does
  nothing for every direction: no move and no notice, not even the boundary notices.
\<close>

theorem navigateTrajectory_without_video:
  "\<not> truthy_str (videoFilename s) \<Longrightarrow> navigateTrajectory direction s = []"
  by (simp add: navigateTrajectory_def)

theorem navigateTrajectory_without_video_witness:
  "\<not> truthy_str (videoFilename new_TrajectoryRating)
   \<and> navigateTrajectory 1 new_TrajectoryRating = []
   \<and> navigateTrajectory (- 1) new_TrajectoryRating = []"
  using navigateTrajectory_without_video [of new_TrajectoryRating 1]
    navigateTrajectory_without_video [of new_TrajectoryRating "- 1"]
  by (simp add: new_TrajectoryRating_def)

text \<open>
  C7: in a session whose video is set and whose current index \<open>i\<close> lies in
  \<open>0 \<le> i < totalTrajectories\<close> (with at most \<open>2 ^ 53\<close> trajectories, so that every
  index is an exact double), a step back from index 0 only shows the "first
  trajectory" notice, a step forward from the last index only shows the "last trajectory"
  notice, and every other step navigates to index \<open>i - 1\<close> or \<open>i + 1\<close>. The method
  assigns no field, so nothing else changes.
\<close>

theorem navigateTrajectory_in_range:
  assumes "truthy_str (videoFilename s)"
    and "currentTrajectoryId s = Num (Fin (of_int i))"
    and "totalTrajectories s = Fin (of_int n)"
    and "0 \<le> i" and "i < n" and "n \<le> 2 ^ 53"
  shows "navigateTrajectory (- 1) s =
           (if i = 0 then [Notification First_trajectory Info]
            else [Location_trajectory_rating (the (videoFilename s)) (Fin (of_int (i - 1)))])
       \<and> navigateTrajectory 1 s =
           (if i = n - 1 then [Notification Last_trajectory Info]
            else [Location_trajectory_rating (the (videoFilename s)) (Fin (of_int (i + 1)))])"
proof -
  have h_prev: "navigateTrajectory (- 1) s =
           (if i = 0 then [Notification First_trajectory Info]
            else [Location_trajectory_rating (the (videoFilename s)) (Fin (of_int (i - 1)))])"
    using assms(4,5) by (simp add: navigateTrajectory_int [OF assms(1,2,3)] del: of_int_diff)
  have h_next: "navigateTrajectory 1 s =
           (if i = n - 1 then [Notification Last_trajectory Info]
            else [Location_trajectory_rating (the (videoFilename s)) (Fin (of_int (i + 1)))])"
    using assms(4,5)
    by (auto simp add: navigateTrajectory_int [OF assms(1,2,3)] simp del: of_int_add)
  from h_prev h_next show ?thesis by (rule conjI)
qed

theorem navigateTrajectory_in_range_witness:
  "navigateTrajectory (- 1) (session ''v.mp4'' 3 0) = [Notification First_trajectory Info]
   \<and> navigateTrajectory 1 (session ''v.mp4'' 3 0) = [Location_trajectory_rating ''v.mp4'' (Fin 1)]
   \<and> navigateTrajectory (- 1) (session ''v.mp4'' 3 2) = [Location_trajectory_rating ''v.mp4'' (Fin 1)]
   \<and> navigateTrajectory 1 (session ''v.mp4'' 3 2) = [Notification Last_trajectory Info]"
  using navigateTrajectory_in_range [of "session ''v.mp4'' 3 0" 0 3]
    navigateTrajectory_in_range [of "session ''v.mp4'' 3 2" 2 3]
  by (simp add: session_def new_TrajectoryRating_def)

section \<open>Submitting a rating\<close>

text \<open>
  C5: a submission that reached the network and was not accepted (the request failed, the
  status was not a success, or the body could not be read) only adds the error notice after
  the request and returns the session exactly as it was, \<open>currentRating\<close> included. A
  retry that is accepted then puts the current index, which was not yet rated, into
  \<open>ratedTrajectories\<close>, whose size grows by exactly one, and the rating is still the one
  the user chose.
\<close>

theorem submitRating_failed_then_retry:
  assumes "\<not> accepted r"
    and "snd (submitRating_request p s) = Awaiting"
    and "currentTrajectoryId s |\<notin>| ratedTrajectories s"
  shows "submitRating p r s =
           (s, fst (submitRating_request p s) @ [Notification Rating_save_error Error])
       \<and> ratedTrajectories
            (fst (run [submitRating p r, submitRating p (Http True (Json result))] s)) =
           finsert (currentTrajectoryId s) (ratedTrajectories s)
       \<and> fcard (ratedTrajectories
            (fst (run [submitRating p r, submitRating p (Http True (Json result))] s))) =
           Suc (fcard (ratedTrajectories s))
       \<and> currentRating
            (fst (run [submitRating p r, submitRating p (Http True (Json result))] s)) =
           currentRating s"
proof -
  obtain es where req: "submitRating_request p s = (es, Awaiting)"
    using assms(2) by (cases "submitRating_request p s") simp
  have failed: "submitRating p r s =
           (s, fst (submitRating_request p s) @ [Notification Rating_save_error Error])"
    by (simp add: submitRating_awaiting [OF req] submitRating_response_failed [OF assms(1)] req)
  have unchanged: "fst (submitRating p r s) = s"
    by (simp only: failed fst_conv)
  have "fst (run [submitRating p r, submitRating p (Http True (Json result))] s) =
          fst (submitRating p (Http True (Json result)) (fst (submitRating p r s)))"
    by (simp only: run_fst run_fst_Nil)
  also have "\<dots> = fst (submitRating p (Http True (Json result)) s)"
    by (simp only: unchanged)
  also have "\<dots> = fst (submitRating_response (Http True (Json result)) p s)"
    by (simp only: submitRating_awaiting [OF req] fst_conv)
  finally have retry:
    "fst (run [submitRating p r, submitRating p (Http True (Json result))] s) =
       fst (submitRating_response (Http True (Json result)) p s)" .
  show ?thesis
    using assms(3) failed
    by (simp only: retry submitRating_response_rated submitRating_response_other
        fcard_finsert_if if_False simp_thms)
qed

theorem submitRating_failed_then_retry_witness:
  "submitRating full_page (Http False Bad_json) ((session ''v.mp4'' 3 1)\<lparr>currentRating := Fin 4\<rparr>) =
     ((session ''v.mp4'' 3 1)\<lparr>currentRating := Fin 4\<rparr>,
      [Fetch_rate_trajectory (Some ''v.mp4'') (Num (Fin 1)) (Fin 4) [] (Fin (1 / 10)),
       Notification Rating_save_error Error])
   \<and> ratedTrajectories (fst (run [submitRating full_page (Http False Bad_json),
                                    submitRating full_page (Http True (Json None))]
                               ((session ''v.mp4'' 3 1)\<lparr>currentRating := Fin 4\<rparr>))) =
     {|Num (Fin 1)|}"
  using submitRating_failed_then_retry
    [of "Http False Bad_json" full_page "(session ''v.mp4'' 3 1)\<lparr>currentRating := Fin 4\<rparr>" None]
  by (simp add: submitRating_request_def session_def new_TrajectoryRating_def full_page_def
      truthy_num_def del: run.simps)

text \<open>
  The guard of \<open>submitRating\<close> tests neither \<open>videoFilename\<close> nor the sign of the index:
  with a rating chosen, a session without a video and a session at index \<open>-1\<close> both send
  the request.
\<close>

theorem submitRating_unchecked_video_and_sign:
  "submitRating_request full_page
      ((session ''v.mp4'' 3 1)\<lparr>currentRating := Fin 4, videoFilename := None\<rparr>) =
     ([Fetch_rate_trajectory None (Num (Fin 1)) (Fin 4) [] (Fin (1 / 10))], Awaiting)
   \<and> submitRating_request full_page ((session ''v.mp4'' 3 (- 1))\<lparr>currentRating := Fin 4\<rparr>) =
     ([Fetch_rate_trajectory (Some ''v.mp4'') (Num (Fin (- 1))) (Fin 4) [] (Fin (1 / 10))],
      Awaiting)"
  by code_simp

text \<open>
  C3, as the code has it: when no rating is chosen (\<open>currentRating\<close> is \<open>0\<close> or \<open>NaN\<close>)
  or the current index is \<open>null\<close> or \<open>undefined\<close>, \<open>submitRating\<close> sends no request,
  shows the "choose a rating" alert and returns the session unchanged, whatever the
  server would have answered.
\<close>

theorem submitRating_guard:
  assumes "\<not> truthy_num (currentRating s) \<or> currentTrajectoryId s = Null
           \<or> currentTrajectoryId s = Undefined"
  shows "submitRating p r s = (s, [Alert Choose_rating])"
  using assms by (auto simp add: submitRating_def submitRating_request_def)

theorem submitRating_guard_witness:
  "submitRating full_page (Http True (Json None)) (session ''v.mp4'' 3 1) =
     (session ''v.mp4'' 3 1, [Alert Choose_rating])
   \<and> ratedTrajectories
        (fst (submitRating full_page (Http True (Json None)) (session ''v.mp4'' 3 1))) = {||}"
  using submitRating_guard [of "session ''v.mp4'' 3 1" full_page "Http True (Json None)"]
  by (simp add: session_def new_TrajectoryRating_def truthy_num_def)

text \<open>
  A submission is started at index 1 with rating 4; before its response arrives
  \<open>setCurrentTrajectory(2)\<close> runs. The request carries index 1, but the continuation
  marks index 2 as rated, and index 1 is not in \<open>ratedTrajectories\<close>.
\<close>

theorem late_response_rates_new_index:
  "run [selectRating full_page ''4'', submitRating_begin full_page,
        setCurrentTrajectory full_page (Num (Fin 2)),
        submitRating_response (Http True (Json None)) full_page] (session ''v.mp4'' 3 1) =
     ((session ''v.mp4'' 3 2)\<lparr>ratedTrajectories := {|Num (Fin 2)|}\<rparr>,
      [Submit_disabled False,
       Fetch_rate_trajectory (Some ''v.mp4'') (Num (Fin 1)) (Fin 4) [] (Fin (1 / 10)),
       Comment_value [], Submit_disabled True, Prev_disabled False, Next_disabled True,
       Notification Rating_saved Success, Fetch_video_statistics ''v.mp4'',
       Progress_fill_width (Fin (100 / 3)), Progress_percent_text (Fin 33),
       Timeout_navigate 1 1000])"
  by code_simp

text \<open>
  C9, as the code has it: the request of a submission carries the index the session has
  when the request is built, and the continuation of an accepted submission adds to
  \<open>ratedTrajectories\<close> the index the session has when the response arrives, after
  whatever handler \<open>h\<close> ran in between. The two agree when \<open>h\<close> leaves
  \<open>currentTrajectoryId\<close> alone.
\<close>

theorem response_rates_index_of_its_time:
  assumes "snd (submitRating_request p s) = Awaiting"
  shows "fst (submitRating_request p s) =
           [Fetch_rate_trajectory (videoFilename s) (currentTrajectoryId s) (currentRating s)
              (case el_comment p of None \<Rightarrow> [] | Some v \<Rightarrow> v) (smoothnessFactor s)]
       \<and> ratedTrajectories
            (fst (run [submitRating_begin p, h,
                       submitRating_response (Http True (Json result)) p] s)) =
           finsert (currentTrajectoryId (fst (h s))) (ratedTrajectories (fst (h s)))"
proof -
  have req: "fst (submitRating_request p s) =
           [Fetch_rate_trajectory (videoFilename s) (currentTrajectoryId s) (currentRating s)
              (case el_comment p of None \<Rightarrow> [] | Some v \<Rightarrow> v) (smoothnessFactor s)]"
    using assms by (simp add: submitRating_request_def split: if_splits)
  have "fst (run [submitRating_begin p, h, submitRating_response (Http True (Json result)) p] s) =
          fst (submitRating_response (Http True (Json result)) p (fst (h s)))"
    by (simp add: submitRating_begin_def split: prod.splits)
  then have "ratedTrajectories
            (fst (run [submitRating_begin p, h,
                       submitRating_response (Http True (Json result)) p] s)) =
           finsert (currentTrajectoryId (fst (h s))) (ratedTrajectories (fst (h s)))"
    by (simp only: submitRating_response_rated)
  with req show ?thesis by (rule conjI)
qed

theorem response_rates_index_of_its_time_witness:
  "ratedTrajectories
     (fst (run [submitRating_begin full_page, selectRating full_page ''2'',
                submitRating_response (Http True (Json None)) full_page]
             ((session ''v.mp4'' 3 1)\<lparr>currentRating := Fin 4\<rparr>))) = {|Num (Fin 1)|}
   \<and> fst (submitRating_request full_page ((session ''v.mp4'' 3 1)\<lparr>currentRating := Fin 4\<rparr>)) =
       [Fetch_rate_trajectory (Some ''v.mp4'') (Num (Fin 1)) (Fin 4) [] (Fin (1 / 10))]"
  using response_rates_index_of_its_time
    [of full_page "(session ''v.mp4'' 3 1)\<lparr>currentRating := Fin 4\<rparr>"
        "selectRating full_page ''2''" None]
  by (simp add: submitRating_request_def session_def new_TrajectoryRating_def full_page_def
      truthy_num_def selectRating_def)

section \<open>Completion and the average rating\<close>

text \<open>
  C1, the code on the specification's scenario: three trajectories, ratings 5, 3 and 4 accepted at
  indices 0, 1 and 2. After the first two submissions the object holds the two indices and
  only the rating chosen last. The third submission completes the session; the completion
  modal is displayed, \<open>calculateAverageRating\<close> raises \<open>TypeError\<close>, and
  \<open>submitRating\<close> reports a save error. No average and no quality level are produced.
  The same happens in a session of one trajectory.
\<close>

theorem ratings_5_3_4_no_average:
  "fst (run [setCurrentTrajectory full_page (Num (Fin 0)), selectRating full_page ''5'',
             submitRating full_page (Http True (Json None)),
             setCurrentTrajectory full_page (Num (Fin 1)), selectRating full_page ''3'',
             submitRating full_page (Http True (Json None)),
             setCurrentTrajectory full_page (Num (Fin 2)), selectRating full_page ''4'']
         (session ''v.mp4'' 3 0)) = rated_0_1
   \<and> submitRating full_page (Http True (Json None)) rated_0_1 =
       (rated_0_1\<lparr>ratedTrajectories := {|Num (Fin 0), Num (Fin 1), Num (Fin 2)|}\<rparr>,
        [Fetch_rate_trajectory (Some ''v.mp4'') (Num (Fin 2)) (Fin 4) [] (Fin (1 / 10)),
         Notification Rating_saved Success, Fetch_video_statistics ''v.mp4'',
         Progress_fill_width (Fin 100), Progress_percent_text (Fin 100),
         Modal_display_block, Notification Rating_save_error Error])
   \<and> calculateAverageRating
         (rated_0_1\<lparr>ratedTrajectories := {|Num (Fin 0), Num (Fin 1), Num (Fin 2)|}\<rparr>) =
       Inl TypeError
   \<and> run [selectRating full_page ''4'', submitRating full_page (Http True (Json None))]
         (session ''v.mp4'' 1 0) =
       ((session ''v.mp4'' 1 0)\<lparr>currentRating := Fin 4, ratedTrajectories := {|Num (Fin 0)|}\<rparr>,
        [Submit_disabled False,
         Fetch_rate_trajectory (Some ''v.mp4'') (Num (Fin 0)) (Fin 4) [] (Fin (1 / 10)),
         Notification Rating_saved Success, Fetch_video_statistics ''v.mp4'',
         Progress_fill_width (Fin 100), Progress_percent_text (Fin 100),
         Modal_display_block, Notification Rating_save_error Error])"
  by code_simp

text \<open>
  In a session of one trajectory, on a page without the final-statistics list, the
  rating is accepted twice: the second submission finds the session already complete and
  displays the modal and the completion notice again.
\<close>

theorem completion_notice_repeated:
  "snd (run [selectRating (full_page\<lparr>el_final_stats := False\<rparr>) ''5'',
             submitRating (full_page\<lparr>el_final_stats := False\<rparr>) (Http True (Json None)),
             submitRating (full_page\<lparr>el_final_stats := False\<rparr>) (Http True (Json None))]
         (session ''v.mp4'' 1 0)) =
     [Submit_disabled False,
      Fetch_rate_trajectory (Some ''v.mp4'') (Num (Fin 0)) (Fin 5) [] (Fin (1 / 10)),
      Notification Rating_saved Success, Fetch_video_statistics ''v.mp4'',
      Progress_fill_width (Fin 100), Progress_percent_text (Fin 100),
      Modal_display_block, Notification All_rated Success, Modal_animation_fadeIn,
      Timeout_navigate 1 1000,
      Fetch_rate_trajectory (Some ''v.mp4'') (Num (Fin 0)) (Fin 5) [] (Fin (1 / 10)),
      Notification Rating_saved Success, Fetch_video_statistics ''v.mp4'',
      Progress_fill_width (Fin 100), Progress_percent_text (Fin 100),
      Modal_display_block, Notification All_rated Success, Modal_animation_fadeIn,
      Timeout_navigate 1 1000]"
  by code_simp

text \<open>
  C2, as the code has it: on a page that has the two progress elements and the
  completion modal, once the number of rated trajectories equals a positive
  \<open>totalTrajectories\<close>, every recomputation of the progress shows 100 and calls
  \<open>showCompletionModal\<close>; nothing records that the session is complete, so \<open>k\<close>
  recomputations display the completion modal \<open>k\<close> times. (Without the modal element
  \<open>showCompletionModal\<close> is still called each time, and does nothing.)
\<close>

theorem updateProgress_complete_every_time:
  assumes "el_progress_fill p" and "el_progress_percent p" and "el_completion_modal p"
    and "totalTrajectories s = Fin (of_nat n)" and "0 < n"
    and "fcard (ratedTrajectories s) = n"
  shows "updateProgress p s =
           (case showCompletionModal p s of
              (es, x) \<Rightarrow> (Progress_fill_width (Fin 100) # Progress_percent_text (Fin 100) # es, x))
       \<and> length (filter (\<lambda>e. e = Modal_display_block)
                    (snd (run (replicate k (recompute p)) s))) = k"
proof -
  have eq: "updateProgress p s =
           (case showCompletionModal p s of
              (es, x) \<Rightarrow> (Progress_fill_width (Fin 100) # Progress_percent_text (Fin 100) # es, x))"
    by (rule updateProgress_complete [OF assms(1,2,4,5,6)])
  have one: "length (filter (\<lambda>e. e = Modal_display_block) (fst (updateProgress p s))) = 1"
    using assms(3) by (simp add: eq showCompletionModal_eq)
  have "length (filter (\<lambda>e. e = Modal_display_block)
                  (concat (replicate k (fst (updateProgress p s))))) = k"
    using one by (induction k) simp_all
  then have "length (filter (\<lambda>e. e = Modal_display_block)
                  (snd (run (replicate k (recompute p)) s))) = k"
    by (simp add: run_recompute)
  with eq show ?thesis by (rule conjI)
qed

theorem updateProgress_complete_every_time_witness:
  "updateProgress full_page ((session ''v.mp4'' 1 0)\<lparr>ratedTrajectories := {|Num (Fin 0)|}\<rparr>) =
     ([Progress_fill_width (Fin 100), Progress_percent_text (Fin 100), Modal_display_block],
      Some TypeError)
   \<and> length (filter (\<lambda>e. e = Modal_display_block)
        (snd (run (replicate 2 (recompute full_page))
           ((session ''v.mp4'' 1 0)\<lparr>ratedTrajectories := {|Num (Fin 0)|}\<rparr>)))) = 2"
  using updateProgress_complete_every_time
    [of full_page "(session ''v.mp4'' 1 0)\<lparr>ratedTrajectories := {|Num (Fin 0)|}\<rparr>" 1 2]
  by (simp add: session_def new_TrajectoryRating_def full_page_def showCompletionModal_eq
      fcard_finsert_if fcard_fempty)

text \<open>
  C4, the code with no trajectories: the constructor calls \<open>updateProgress\<close> while
  \<open>totalTrajectories\<close> is still 0, which writes \<open>NaN\<close> as width and as percentage (on
  every page load, here for trajectory 0 of 3); with one rated index and a total of 0 the
  progress is \<open>Infinity\<close> and the completion modal is displayed.
\<close>

theorem progress_with_no_trajectories:
  "updateProgress full_page new_TrajectoryRating =
     ([Progress_fill_width NaN, Progress_percent_text NaN], None)
   \<and> updateProgress full_page (new_TrajectoryRating\<lparr>ratedTrajectories := {|Num (Fin 0)|}\<rparr>) =
     ([Progress_fill_width PosInf, Progress_percent_text PosInf, Modal_display_block],
      Some TypeError)
   \<and> snd (page_loaded full_page (Some ''v.mp4'') (Some ''0'') (Some ''3'')) =
     [Progress_fill_width NaN, Progress_percent_text NaN, Comment_value [],
      Submit_disabled True, Prev_disabled True, Next_disabled False]"
  by code_simp

section \<open>Regenerating the preview\<close>

text \<open>
  C6, the code at index 0: the guard \<open>!this.currentTrajectoryId\<close> is true for the first
  trajectory, so \<open>regenerateGif\<close> returns at once, with no notice and no request; at
  index 1 the request is sent and the image replaced.
\<close>

theorem regenerateGif_index_0:
  "regenerateGif full_page (Http True (Json (Some ''/g.gif''))) 17 (session ''v.mp4'' 3 0) =
     (session ''v.mp4'' 3 0, [])
   \<and> regenerateGif full_page (Http True (Json (Some ''/g.gif''))) 17 (session ''v.mp4'' 3 1) =
     (session ''v.mp4'' 3 1,
      [Notification Creating_gif Info,
       Fetch_regenerate_gif (Some ''v.mp4'') (Num (Fin 1)) (Fin (1 / 10)),
       Gif_src ''/g.gif'' 17, Notification Gif_updated Success])"
  by code_simp

section \<open>Selecting a rating\<close>

text \<open>
  \<open>selectRating\<close> called with \<open>7\<close> stores 7 and enables the submit button, and the
  next submission sends the rating 7.
\<close>

theorem selectRating_out_of_range:
  "selectRating full_page ''7'' (session ''v.mp4'' 3 0) =
     ((session ''v.mp4'' 3 0)\<lparr>currentRating := Fin 7\<rparr>, [Submit_disabled False])
   \<and> fst (submitRating_request full_page
             (fst (selectRating full_page ''7'' (session ''v.mp4'' 3 0)))) =
     [Fetch_rate_trajectory (Some ''v.mp4'') (Num (Fin 0)) (Fin 7) [] (Fin (1 / 10))]"
  by code_simp

text \<open>
  C8, as the code has it: \<open>selectRating\<close> checks no range. It stores \<open>parseInt(rating)\<close>
  into \<open>currentRating\<close> and changes no other field; for an argument of at most 15
  characters that value is \<open>NaN\<close> or an integer of magnitude below \<open>2 ^ 53\<close>, and the
  values of the five stars give 1 to 5. It enables the submit button whenever the page has
  one, whatever was stored.
\<close>

theorem selectRating_stores_parseInt:
  assumes "length rating \<le> 15"
  shows "fst (selectRating p rating s) = s\<lparr>currentRating := parseInt rating\<rparr>
   \<and> (parseInt rating = NaN \<or> (\<exists>k. \<bar>k\<bar> < 2 ^ 53 \<and> parseInt rating = Fin (of_int k)))
   \<and> snd (selectRating p rating s) = (if el_submit_rating p then [Submit_disabled False] else [])
   \<and> map parseInt [''1'', ''2'', ''3'', ''4'', ''5''] = [Fin 1, Fin 2, Fin 3, Fin 4, Fin 5]"
proof -
  have stored: "fst (selectRating p rating s) = s\<lparr>currentRating := parseInt rating\<rparr>"
    by (simp add: selectRating_def)
  have shape: "parseInt rating = NaN \<or> (\<exists>k. \<bar>k\<bar> < 2 ^ 53 \<and> parseInt rating = Fin (of_int k))"
    using assms by (rule parseInt_shape)
  have button: "snd (selectRating p rating s) =
      (if el_submit_rating p then [Submit_disabled False] else [])"
    by (simp add: selectRating_def)
  have stars: "map parseInt [''1'', ''2'', ''3'', ''4'', ''5''] = [Fin 1, Fin 2, Fin 3, Fin 4, Fin 5]"
    by code_simp
  from stored shape button stars show ?thesis by blast
qed

theorem selectRating_stores_parseInt_witness:
  "length ''5'' \<le> 15
   \<and> fst (selectRating full_page ''5'' (session ''v.mp4'' 3 0)) =
       (session ''v.mp4'' 3 0)\<lparr>currentRating := Fin 5\<rparr>
   \<and> snd (selectRating full_page ''5'' (session ''v.mp4'' 3 0)) = [Submit_disabled False]"
  using selectRating_stores_parseInt [of "''5''" full_page "session ''v.mp4'' 3 0"]
  by (simp add: full_page_def)

end
